theory Spec2Isabelle
  imports Complex_Main "HOL-Library.AList"
begin

section \<open>Tensor values\<close>

text \<open>
  A tensor element is a real number or one of the IEEE special values. Arithmetic on
  finite values is exact (rounding, overflow and the sign of zero are not modelled); the
  special values follow the IEEE rules, so that \<open>log2 0\<close>, \<open>0 / 0\<close> and \<open>x / 0\<close> are
  what the tensor library returns and not HOL's \<open>x / 0 = 0\<close>. A Python \<open>float\<close> argument
  and a parameter value read through the accessor \<open>self.p\<close> are finite reals; a
  one-dimensional tensor is a list.
\<close>

datatype ext = Fin real | PInf | MInf | NaN

datatype error =
  AssertionError | ValueError | RuntimeError | KeyError | AttributeError | TypeError
  | IndexError

fun fle :: "ext \<Rightarrow> ext \<Rightarrow> bool" where
  "fle NaN _ = False"
| "fle _ NaN = False"
| "fle MInf _ = True"
| "fle _ PInf = True"
| "fle (Fin a) (Fin b) = (a \<le> b)"
| "fle PInf _ = False"
| "fle (Fin a) MInf = False"

definition inf_of_sign :: "real \<Rightarrow> ext" where
  "inf_of_sign s = (if s = 0 then NaN else if 0 < s then PInf else MInf)"

fun fneg :: "ext \<Rightarrow> ext" where
  "fneg (Fin a) = Fin (- a)"
| "fneg PInf = MInf"
| "fneg MInf = PInf"
| "fneg NaN = NaN"

fun fadd :: "ext \<Rightarrow> ext \<Rightarrow> ext" where
  "fadd NaN _ = NaN"
| "fadd _ NaN = NaN"
| "fadd (Fin a) (Fin b) = Fin (a + b)"
| "fadd PInf MInf = NaN"
| "fadd MInf PInf = NaN"
| "fadd PInf _ = PInf"
| "fadd _ PInf = PInf"
| "fadd MInf _ = MInf"
| "fadd _ MInf = MInf"

definition fsub :: "ext \<Rightarrow> ext \<Rightarrow> ext" where
  "fsub a b = fadd a (fneg b)"

fun fmul :: "ext \<Rightarrow> ext \<Rightarrow> ext" where
  "fmul NaN _ = NaN"
| "fmul _ NaN = NaN"
| "fmul (Fin a) (Fin b) = Fin (a * b)"
| "fmul (Fin a) PInf = inf_of_sign a"
| "fmul (Fin a) MInf = inf_of_sign (- a)"
| "fmul PInf (Fin b) = inf_of_sign b"
| "fmul MInf (Fin b) = inf_of_sign (- b)"
| "fmul PInf PInf = PInf"
| "fmul MInf MInf = PInf"
| "fmul PInf MInf = MInf"
| "fmul MInf PInf = MInf"

fun fdiv :: "ext \<Rightarrow> ext \<Rightarrow> ext" where
  "fdiv NaN _ = NaN"
| "fdiv _ NaN = NaN"
| "fdiv (Fin a) (Fin b) = (if b = 0 then inf_of_sign a else Fin (a / b))"
| "fdiv (Fin a) _ = Fin 0"
| "fdiv PInf (Fin b) = (if 0 \<le> b then PInf else MInf)"
| "fdiv MInf (Fin b) = (if 0 \<le> b then MInf else PInf)"
| "fdiv _ _ = NaN"

fun fabs :: "ext \<Rightarrow> ext" where
  "fabs (Fin a) = Fin \<bar>a\<bar>"
| "fabs PInf = PInf"
| "fabs MInf = PInf"
| "fabs NaN = NaN"

fun torch_log2 :: "ext \<Rightarrow> ext" where
  "torch_log2 (Fin x) = (if x < 0 then NaN else if x = 0 then MInf else Fin (log 2 x))"
| "torch_log2 PInf = PInf"
| "torch_log2 MInf = NaN"
| "torch_log2 NaN = NaN"

fun torch_log10 :: "ext \<Rightarrow> ext" where
  "torch_log10 (Fin x) = (if x < 0 then NaN else if x = 0 then MInf else Fin (log 10 x))"
| "torch_log10 PInf = PInf"
| "torch_log10 MInf = NaN"
| "torch_log10 NaN = NaN"

fun torch_exp2 :: "ext \<Rightarrow> ext" where
  "torch_exp2 (Fin y) = Fin (2 powr y)"
| "torch_exp2 PInf = PInf"
| "torch_exp2 MInf = Fin 0"
| "torch_exp2 NaN = NaN"

text \<open>\<open>torch.pow\<close> with a finite exponent, after C's \<open>pow\<close>.\<close>

fun torch_pow :: "ext \<Rightarrow> real \<Rightarrow> ext" where
  "torch_pow (Fin x) y =
     (if y = 0 then Fin 1
      else if 0 < x then Fin (x powr y)
      else if x = 0 then (if 0 < y then Fin 0 else PInf)
      else if y = of_int \<lfloor>y\<rfloor>
        then Fin ((if even \<lfloor>y\<rfloor> then 1 else - 1) * (\<bar>x\<bar> powr y))
      else NaN)"
| "torch_pow PInf y = (if y = 0 then Fin 1 else if 0 < y then PInf else Fin 0)"
| "torch_pow MInf y =
     (if y = 0 then Fin 1
      else if 0 < y then (if y = of_int \<lfloor>y\<rfloor> \<and> odd \<lfloor>y\<rfloor> then MInf else PInf)
      else Fin 0)"
| "torch_pow NaN y = (if y = 0 then Fin 1 else NaN)"

fun torch_cos :: "ext \<Rightarrow> ext" where
  "torch_cos (Fin x) = Fin (cos x)"
| "torch_cos _ = NaN"

fun torch_sin :: "ext \<Rightarrow> ext" where
  "torch_sin (Fin x) = Fin (sin x)"
| "torch_sin _ = NaN"

fun torch_tanh :: "ext \<Rightarrow> ext" where
  "torch_tanh (Fin x) = Fin (tanh x)"
| "torch_tanh PInf = Fin 1"
| "torch_tanh MInf = Fin (- 1)"
| "torch_tanh NaN = NaN"

text \<open>\<open>torch.round\<close> rounds a half to the even neighbour.\<close>

definition round_half_even :: "real \<Rightarrow> int" where
  "round_half_even x =
     (let f = \<lfloor>x\<rfloor>; d = x - of_int f
      in if d < 1 / 2 then f else if 1 / 2 < d then f + 1
         else if even f then f else f + 1)"

text \<open>\<open>torch.arange(n)\<close> raises for a negative bound.\<close>

definition torch_arange :: "int \<Rightarrow> error + nat list" where
  "torch_arange n = (if n < 0 then Inl RuntimeError else Inr [0 ..< nat n])"

fun cumsum_acc :: "ext \<Rightarrow> ext list \<Rightarrow> ext list" where
  "cumsum_acc a [] = []"
| "cumsum_acc a (x # xs) = fadd a x # cumsum_acc (fadd a x) xs"

definition torch_cumsum :: "ext list \<Rightarrow> ext list" where
  "torch_cumsum xs = (case xs of [] \<Rightarrow> [] | x # ys \<Rightarrow> x # cumsum_acc x ys)"

text \<open>Python's \<open>xs[:n]\<close>: a negative bound counts from the end.\<close>

definition py_slice_to :: "int \<Rightarrow> 'a list \<Rightarrow> 'a list" where
  "py_slice_to n xs =
     (if 0 \<le> n then take (nat n) xs else take (length xs - nat (- n)) xs)"


section \<open>parameter.py\<close>

record ParameterRange =
  minimum :: real
  maximum :: real
  curve_type :: string
  curve :: real

definition ParameterRange_init :: "real \<Rightarrow> real \<Rightarrow> string \<Rightarrow> error + ParameterRange" where
  "ParameterRange_init mn mx c =
     (if c = ''linear'' then Inr \<lparr>minimum = mn, maximum = mx, curve_type = c, curve = 1\<rparr>
      else if c = ''log''
        then Inr \<lparr>minimum = mn, maximum = mx, curve_type = c, curve = 0.5\<rparr>
      else if c = ''exp''
        then Inr \<lparr>minimum = mn, maximum = mx, curve_type = c, curve = 2.0\<rparr>
      else Inl ValueError)"

definition from_0to1 :: "ParameterRange \<Rightarrow> ext \<Rightarrow> error + ext" where
  "from_0to1 self v =
     (if \<not> fle (Fin 0.0) v then Inl AssertionError
      else if \<not> fle v (Fin 1.0) then Inl AssertionError
      else
        let v' = (if curve self \<noteq> 1
                  then torch_exp2 (fdiv (torch_log2 v) (Fin (curve self))) else v)
        in Inr (fadd (Fin (minimum self)) (fmul (Fin (maximum self - minimum self)) v')))"

definition to_0to1 :: "ParameterRange \<Rightarrow> ext \<Rightarrow> error + ext" where
  "to_0to1 self v =
     (if \<not> fle (Fin (minimum self)) v then Inl AssertionError
      else if \<not> fle v (Fin (maximum self)) then Inl AssertionError
      else
        let normalized = fdiv (fsub v (Fin (minimum self)))
                              (Fin (maximum self - minimum self))
        in Inr (if curve self \<noteq> 1 then torch_pow normalized (curve self)
                else normalized))"

record TorchParameter =
  parameter_name :: string
  parameter_range :: "ParameterRange option"
  data :: ext

text \<open>
  \<open>TorchParameter.__new__\<close>: \<open>v\<close> is the optional real value, \<open>d\<close> the tensor passed
  as \<open>data\<close>.
\<close>

definition TorchParameter_new ::
  "real option \<Rightarrow> string \<Rightarrow> ParameterRange option \<Rightarrow> ext \<Rightarrow> error + TorchParameter" where
  "TorchParameter_new v name rng d =
     (case v of
        Some x \<Rightarrow>
          (case rng of
             Some r \<Rightarrow>
               (case to_0to1 r (Fin x) of
                  Inl e \<Rightarrow> Inl e
                | Inr d' \<Rightarrow>
                    Inr \<lparr>parameter_name = name, parameter_range = rng, data = d'\<rparr>)
           | None \<Rightarrow> Inl ValueError)
      | None \<Rightarrow> Inr \<lparr>parameter_name = name, parameter_range = rng, data = d\<rparr>)"

definition get_float :: "TorchParameter \<Rightarrow> ext" where
  "get_float self = data self"

definition get_in_range :: "TorchParameter \<Rightarrow> error + ext" where
  "get_in_range self =
     (case parameter_range self of
        Some r \<Rightarrow> from_0to1 r (data self)
      | None \<Rightarrow> Inr (data self))"

definition set_with_range :: "TorchParameter \<Rightarrow> ext \<Rightarrow> error + TorchParameter" where
  "set_with_range self new_value =
     (case parameter_range self of
        Some r \<Rightarrow>
          (case to_0to1 r new_value of
             Inl e \<Rightarrow> Inl e
           | Inr d \<Rightarrow> Inr (self\<lparr>data := d\<rparr>))
      | None \<Rightarrow> Inl RuntimeError)"

text \<open>
  Attribute lookup on a \<open>TorchParameter\<close>: the methods the class declares. A name the
  class does not declare (and the tensor base class does not have) raises
  \<open>AttributeError\<close>.
\<close>

datatype TorchParameter_method = Get_float | Get_in_range | Set_with_range

definition TorchParameter_getattr :: "string \<Rightarrow> error + TorchParameter_method" where
  "TorchParameter_getattr name =
     (if name = ''get_float'' then Inr Get_float
      else if name = ''get_in_range'' then Inr Get_in_range
      else if name = ''set_with_range'' then Inr Set_with_range
      else Inl AttributeError)"

text \<open>A call with no argument, and a call with one tensor argument.\<close>

fun TorchParameter_call0 :: "TorchParameter \<Rightarrow> TorchParameter_method \<Rightarrow> error + ext" where
  "TorchParameter_call0 self Get_float = Inr (get_float self)"
| "TorchParameter_call0 self Get_in_range = get_in_range self"
| "TorchParameter_call0 self Set_with_range = Inl TypeError"

fun TorchParameter_call1 ::
  "TorchParameter \<Rightarrow> TorchParameter_method \<Rightarrow> ext \<Rightarrow> error + TorchParameter" where
  "TorchParameter_call1 self Set_with_range v = set_with_range self v"
| "TorchParameter_call1 self _ v = Inl TypeError"


section \<open>torchmodule.py: TorchSynthModule\<close>

record TorchSynthModule =
  sample_rate :: int
  buffer_size :: int
  torchparameters :: "(string \<times> TorchParameter) list"

definition TorchSynthModule_init :: "int \<Rightarrow> int \<Rightarrow> TorchSynthModule" where
  "TorchSynthModule_init sr bs =
     \<lparr>sample_rate = sr, buffer_size = bs, torchparameters = []\<rparr>"

definition seconds_to_samples :: "'a TorchSynthModule_scheme \<Rightarrow> real \<Rightarrow> int" where
  "seconds_to_samples self seconds =
     round_half_even (seconds * real_of_int (sample_rate self))"

fun add_parameters ::
  "'a TorchSynthModule_scheme \<Rightarrow> TorchParameter list
     \<Rightarrow> error + 'a TorchSynthModule_scheme" where
  "add_parameters self [] = Inr self"
| "add_parameters self (q # qs) =
     (if parameter_name q \<in> fst ` set (torchparameters self) then Inl AssertionError
      else add_parameters
             (self\<lparr>torchparameters := torchparameters self @ [(parameter_name q, q)]\<rparr>) qs)"

definition get_parameter ::
  "'a TorchSynthModule_scheme \<Rightarrow> string \<Rightarrow> error + TorchParameter" where
  "get_parameter self parameter_id =
     (case map_of (torchparameters self) parameter_id of
        None \<Rightarrow> Inl KeyError
      | Some q \<Rightarrow> Inr q)"

definition get_parameter_0to1 :: "'a TorchSynthModule_scheme \<Rightarrow> string \<Rightarrow> error + ext" where
  "get_parameter_0to1 self parameter_id =
     (case map_of (torchparameters self) parameter_id of
        None \<Rightarrow> Inl KeyError
      | Some q \<Rightarrow> Inr (data q))"

definition set_parameter ::
  "'a TorchSynthModule_scheme \<Rightarrow> string \<Rightarrow> real \<Rightarrow> error + 'a TorchSynthModule_scheme" where
  "set_parameter self parameter_id v =
     (case map_of (torchparameters self) parameter_id of
        None \<Rightarrow> Inl KeyError
      | Some q \<Rightarrow>
          (case TorchParameter_getattr ''to_0to1'' of
             Inl e \<Rightarrow> Inl e
           | Inr mth \<Rightarrow>
               (case TorchParameter_call1 q mth (Fin v) of
                  Inl e \<Rightarrow> Inl e
                | Inr q' \<Rightarrow>
                    Inr (self\<lparr>torchparameters :=
                           AList.update parameter_id q' (torchparameters self)\<rparr>))))"


definition p :: "'a TorchSynthModule_scheme \<Rightarrow> string \<Rightarrow> error + ext" where
  "p self parameter_id =
     (case map_of (torchparameters self) parameter_id of
        None \<Rightarrow> Inl KeyError
      | Some q \<Rightarrow>
          (case TorchParameter_getattr ''from_0to1'' of
             Inl e \<Rightarrow> Inl e
           | Inr mth \<Rightarrow> TorchParameter_call0 q mth))"


section \<open>torchutil.py and defaults.py\<close>

text \<open>
  Modelled from the spec: \<open>midi_to_hz\<close> of \<open>ddspdrum.torchutil\<close>, which is not among the
  sources. The spec gives the standard MIDI-to-frequency formula
  \<open>440 * 2^((midi - 69) / 12)\<close>.
\<close>

definition midi_to_hz :: "ext \<Rightarrow> ext" where
  "midi_to_hz midi = fmul (Fin 440) (torch_exp2 (fdiv (fsub midi (Fin 69)) (Fin 12)))"

text \<open>
  Modelled from the spec: \<open>fix_length\<close> of \<open>ddspdrum.torchutil\<close>, which is not among the
  sources. The spec truncates or pads to the given length and takes zero as the fill
  value.
\<close>

definition fix_length :: "ext list \<Rightarrow> nat \<Rightarrow> ext list" where
  "fix_length signal n = take n signal @ replicate (n - length signal) (Fin 0)"

text \<open>
  Modelled from the spec: \<open>normalize\<close> of \<open>ddspdrum.torchutil\<close>, which is not among the
  sources. The spec rescales the signal so that its peak magnitude is 1; the function
  returns the rescaled signal.
\<close>

definition fmax :: "ext \<Rightarrow> ext \<Rightarrow> ext" where
  "fmax a b = (if a = NaN \<or> b = NaN then NaN else if fle a b then b else a)"

definition normalize :: "ext list \<Rightarrow> ext list" where
  "normalize signal =
     (let peak = fold (\<lambda>x m. fmax (fabs x) m) signal (Fin 0)
      in map (\<lambda>x. fdiv x peak) signal)"

text \<open>
  The constant \<open>SAMPLE_RATE\<close> of \<open>ddspdrum.defaults\<close> is not among the sources; the
  functions that read it take it as an argument.
\<close>


section \<open>torchmodule.py: TorchADSR\<close>

text \<open>
  The methods below read the parameters through \<open>self.p\<close>. The accessor is passed as
  \<open>P\<close>, from a parameter name to the value read or the error raised, so that each
  method is what its body computes from whatever \<open>self.p\<close> returns.
\<close>

fun collect :: "(error + 'a) list \<Rightarrow> error + 'a list" where
  "collect [] = Inr []"
| "collect (x # xs) =
     (case x of
        Inl e \<Rightarrow> Inl e
      | Inr v \<Rightarrow> (case collect xs of Inl e \<Rightarrow> Inl e | Inr vs \<Rightarrow> Inr (v # vs)))"

definition make_parameter ::
  "real \<Rightarrow> string \<Rightarrow> real \<Rightarrow> real \<Rightarrow> string \<Rightarrow> error + TorchParameter" where
  "make_parameter v name mn mx c =
     (case ParameterRange_init mn mx c of
        Inl e \<Rightarrow> Inl e
      | Inr r \<Rightarrow> TorchParameter_new (Some v) name (Some r) (Fin 0))"

definition TorchADSR_init ::
  "real \<Rightarrow> real \<Rightarrow> real \<Rightarrow> real \<Rightarrow> real \<Rightarrow> int \<Rightarrow> int \<Rightarrow> error + TorchSynthModule" where
  "TorchADSR_init a d s r alpha sr bs =
     (case collect
             [make_parameter a ''attack'' 0.0 2.0 ''log'',
              make_parameter d ''decay'' 0.0 2.0 ''log'',
              make_parameter s ''sustain'' 0.0 1.0 ''linear'',
              make_parameter r ''release'' 0.0 5.0 ''log'',
              make_parameter alpha ''alpha'' 0.1 6.0 ''linear''] of
        Inl e \<Rightarrow> Inl e
      | Inr qs \<Rightarrow> add_parameters (TorchSynthModule_init sr bs) qs)"

definition TorchADSR_ramp ::
  "(string \<Rightarrow> error + real) \<Rightarrow> 'a TorchSynthModule_scheme \<Rightarrow> real \<Rightarrow> bool
     \<Rightarrow> error + ext list" where
  "TorchADSR_ramp P self duration inverse' =
     (case torch_arange (seconds_to_samples self duration) of
        Inl e \<Rightarrow> Inl e
      | Inr idx \<Rightarrow>
          let t = map (\<lambda>i. fdiv (Fin (real i)) (Fin (real_of_int (sample_rate self)))) idx;
              ramp = map (\<lambda>x. fmul x (fdiv (Fin 1) (Fin duration))) t;
              ramp' = (if inverse' then map (\<lambda>x. fsub (Fin 1.0) x) ramp else ramp)
          in (case P ''alpha'' of
                Inl e \<Rightarrow> Inl e
              | Inr alpha \<Rightarrow> Inr (map (\<lambda>x. torch_pow x alpha) ramp')))"

definition attack ::
  "(string \<Rightarrow> error + real) \<Rightarrow> 'a TorchSynthModule_scheme \<Rightarrow> error + ext list" where
  "attack P self =
     (case P ''attack'' of
        Inl e \<Rightarrow> Inl e
      | Inr a \<Rightarrow> TorchADSR_ramp P self a False)"

definition decay ::
  "(string \<Rightarrow> error + real) \<Rightarrow> 'a TorchSynthModule_scheme \<Rightarrow> error + ext list" where
  "decay P self =
     (case P ''decay'' of
        Inl e \<Rightarrow> Inl e
      | Inr d \<Rightarrow>
          (case TorchADSR_ramp P self d True of
             Inl e \<Rightarrow> Inl e
           | Inr dec \<Rightarrow>
               (case P ''sustain'' of
                  Inl e \<Rightarrow> Inl e
                | Inr s \<Rightarrow> Inr (map (\<lambda>x. fadd (fmul x (Fin (1 - s))) (Fin s)) dec))))"

definition release ::
  "(string \<Rightarrow> error + real) \<Rightarrow> 'a TorchSynthModule_scheme \<Rightarrow> error + ext list" where
  "release P self =
     (case P ''release'' of
        Inl e \<Rightarrow> Inl e
      | Inr r \<Rightarrow> TorchADSR_ramp P self r True)"

text \<open>
  \<open>note_on\<close> first evaluates both properties for its two assertions on \<open>ndim\<close>, which
  hold of every one-dimensional tensor, and then evaluates them again; the properties
  are pure, so the model evaluates each once, in the same order.
\<close>

definition note_on ::
  "(string \<Rightarrow> error + real) \<Rightarrow> 'a TorchSynthModule_scheme \<Rightarrow> int \<Rightarrow> error + ext list" where
  "note_on P self num_samples =
     (case attack P self of
        Inl e \<Rightarrow> Inl e
      | Inr att \<Rightarrow>
          (case decay P self of
             Inl e \<Rightarrow> Inl e
           | Inr dec \<Rightarrow>
               let out = att @ dec
               in if num_samples \<le> int (length out)
                  then Inr (py_slice_to num_samples out)
                  else
                    let hold_samples = num_samples - int (length out)
                    in (case P ''sustain'' of
                          Inl e \<Rightarrow> Inl e
                        | Inr s \<Rightarrow>
                            Inr (out @ map (\<lambda>x. fmul x (Fin s))
                                         (replicate (nat hold_samples) (Fin 1))))))"

definition note_off ::
  "(string \<Rightarrow> error + real) \<Rightarrow> 'a TorchSynthModule_scheme \<Rightarrow> ext \<Rightarrow> error + ext list" where
  "note_off P self last_val =
     (case release P self of
        Inl e \<Rightarrow> Inl e
      | Inr rel \<Rightarrow> Inr (map (\<lambda>x. fmul x last_val) rel))"

text \<open>
  The duration the envelope is computed for: the argument, or in one-shot mode (an
  argument equal to 0) the sum of the attack and the decay.
\<close>

definition note_on_duration' :: "(string \<Rightarrow> error + real) \<Rightarrow> real \<Rightarrow> error + real" where
  "note_on_duration' P note_on_duration =
     (if note_on_duration = 0
      then (case P ''attack'' of
              Inl e \<Rightarrow> Inl e
            | Inr a \<Rightarrow> (case P ''decay'' of Inl e \<Rightarrow> Inl e | Inr d \<Rightarrow> Inr (a + d)))
      else Inr note_on_duration)"

definition TorchADSR_forward ::
  "(string \<Rightarrow> error + real) \<Rightarrow> 'a TorchSynthModule_scheme \<Rightarrow> real \<Rightarrow> error + ext list" where
  "TorchADSR_forward P self note_on_duration =
     (if \<not> 0 \<le> note_on_duration then Inl AssertionError
      else
        (case note_on_duration' P note_on_duration of
           Inl e \<Rightarrow> Inl e
         | Inr dur \<Rightarrow>
             let num_samples = seconds_to_samples self dur
             in (case note_on P self num_samples of
                   Inl e \<Rightarrow> Inl e
                 | Inr ADS \<Rightarrow>
                     if ADS = [] then Inl IndexError
                     else
                       (case note_off P self (last ADS) of
                          Inl e \<Rightarrow> Inl e
                        | Inr R \<Rightarrow> Inr (ADS @ R)))))"


section \<open>torchmodule.py: TorchVCO and its subclasses\<close>

record TorchVCO = TorchSynthModule +
  phase :: ext

datatype vco_kind = SineVCO | FmVCO | SquareSawVCO

definition TorchVCO_init :: "real \<Rightarrow> real \<Rightarrow> real \<Rightarrow> int \<Rightarrow> int \<Rightarrow> error + TorchVCO" where
  "TorchVCO_init midi_f0 mod_depth ph sr bs =
     (case collect
             [make_parameter midi_f0 ''pitch'' 0.0 127.0 ''linear'',
              make_parameter mod_depth ''mod_depth'' 0.0 127.0 ''linear''] of
        Inl e \<Rightarrow> Inl e
      | Inr qs \<Rightarrow>
          add_parameters
            \<lparr>sample_rate = sr, buffer_size = bs, torchparameters = [], phase = Fin ph\<rparr> qs)"

definition TorchSquareSawVCO_init ::
  "real \<Rightarrow> real \<Rightarrow> real \<Rightarrow> real \<Rightarrow> int \<Rightarrow> int \<Rightarrow> error + TorchVCO" where
  "TorchSquareSawVCO_init shape midi_f0 mod_depth ph sr bs =
     (case TorchVCO_init midi_f0 mod_depth ph sr bs of
        Inl e \<Rightarrow> Inl e
      | Inr self \<Rightarrow>
          (case collect [make_parameter shape ''shape'' 0.0 1.0 ''linear''] of
             Inl e \<Rightarrow> Inl e
           | Inr qs \<Rightarrow> add_parameters self qs))"

definition make_control_as_frequency ::
  "vco_kind \<Rightarrow> (string \<Rightarrow> error + real) \<Rightarrow> ext list \<Rightarrow> error + ext list" where
  "make_control_as_frequency k P mod_signal =
     (if k = FmVCO
      then (case P ''pitch'' of
              Inl e \<Rightarrow> Inl e
            | Inr pitch \<Rightarrow>
                let f0_hz = midi_to_hz (Fin pitch)
                in (case P ''mod_depth'' of
                      Inl e \<Rightarrow> Inl e
                    | Inr md \<Rightarrow>
                        let fm_depth = fmul (Fin md) f0_hz;
                            modulation_hz = map (\<lambda>x. fmul fm_depth x) mod_signal
                        in Inr (map (\<lambda>x. fadd f0_hz x) modulation_hz)))
      else (case P ''mod_depth'' of
              Inl e \<Rightarrow> Inl e
            | Inr md \<Rightarrow>
                let modulation = map (\<lambda>x. fmul (Fin md) x) mod_signal
                in (case P ''pitch'' of
                      Inl e \<Rightarrow> Inl e
                    | Inr pitch \<Rightarrow>
                        let control_as_midi = map (\<lambda>x. fadd (Fin pitch) x) modulation
                        in Inr (map midi_to_hz control_as_midi))))"

definition make_argument :: "int \<Rightarrow> ext list \<Rightarrow> ext list" where
  "make_argument SAMPLE_RATE control_as_frequency =
     torch_cumsum
       (map (\<lambda>f. fdiv (fmul (Fin (2 * pi)) f) (Fin (real_of_int SAMPLE_RATE)))
            control_as_frequency)"

definition partials_constant :: "(string \<Rightarrow> error + real) \<Rightarrow> error + ext" where
  "partials_constant P =
     (case P ''pitch'' of
        Inl e \<Rightarrow> Inl e
      | Inr pitch \<Rightarrow>
          (case P ''mod_depth'' of
             Inl e \<Rightarrow> Inl e
           | Inr md \<Rightarrow>
               let max_pitch = pitch + md;
                   max_f0 = midi_to_hz (Fin max_pitch)
               in Inr (fdiv (Fin 12000) (fmul max_f0 (torch_log10 max_f0)))))"

definition oscillator ::
  "vco_kind \<Rightarrow> (string \<Rightarrow> error + real) \<Rightarrow> ext list \<Rightarrow> error + ext list" where
  "oscillator k P argument =
     (if k = SquareSawVCO
      then (case partials_constant P of
              Inl e \<Rightarrow> Inl e
            | Inr pc \<Rightarrow>
                let square =
                      map (\<lambda>a. torch_tanh
                                 (fdiv (fmul (fmul (Fin pi) pc) (torch_sin a)) (Fin 2)))
                          argument
                in (case P ''shape'' of
                      Inl e \<Rightarrow> Inl e
                    | Inr shape \<Rightarrow>
                        Inr (map2 (\<lambda>sq a. fmul (fmul (Fin (1 - shape / 2)) sq)
                                             (fadd (Fin 1) (fmul (Fin shape) (torch_cos a))))
                                  square argument)))
      else Inr (map torch_cos argument))"

text \<open>
  \<open>_forward\<close> returns the result (the waveform or the error raised) and the object after
  the call; \<open>ph\<close> is the argument \<open>phase\<close>, whose default is 0.
\<close>

definition TorchVCO_forward ::
  "vco_kind \<Rightarrow> (string \<Rightarrow> error + real) \<Rightarrow> int \<Rightarrow> TorchVCO \<Rightarrow> ext list \<Rightarrow> ext
     \<Rightarrow> (error + ext list) \<times> TorchVCO" where
  "TorchVCO_forward k P SAMPLE_RATE self mod_signal ph =
     (if \<not> (list_all (\<lambda>x. fle (Fin (- 1)) x) mod_signal
             \<and> list_all (\<lambda>x. fle x (Fin 1)) mod_signal)
      then (Inl AssertionError, self)
      else
        (case make_control_as_frequency k P mod_signal of
           Inl e \<Rightarrow> (Inl e, self)
         | Inr control_as_frequency \<Rightarrow>
             let cosine_argument =
                   map (\<lambda>x. fadd x ph) (make_argument SAMPLE_RATE control_as_frequency)
             in if cosine_argument = [] then (Inl IndexError, self)
                else (oscillator k P cosine_argument,
                      self\<lparr>phase := last cosine_argument\<rparr>)))"


section \<open>torchmodule.py: TorchVCA\<close>

text \<open>
  The statement \<open>normalize(audio_in)\<close> calls the function and drops what it returns;
  \<open>audio_in\<close> stays bound to the tensor that was passed.
\<close>

definition TorchVCA_forward :: "ext list \<Rightarrow> ext list \<Rightarrow> error + ext list" where
  "TorchVCA_forward control_in audio_in =
     (if \<not> (list_all (\<lambda>x. fle (Fin 0) x) control_in
             \<and> list_all (\<lambda>x. fle x (Fin 1)) control_in)
      then Inl AssertionError
      else
        let dropped = (if list_ex (\<lambda>x. fle x (Fin (- 1))) audio_in
                          \<or> list_ex (\<lambda>x. fle (Fin 1) x) audio_in
                       then normalize audio_in else []);
            audio_in' = fix_length audio_in (length control_in)
        in Inr (map2 fmul control_in audio_in'))"


section \<open>Concrete accessors\<close>

text \<open>
  The accessor that returns the listed values, as \<open>self.p\<close> does for a module whose
  parameters hold them; a name that is not listed raises \<open>KeyError\<close>.
\<close>

definition values_accessor :: "(string \<times> real) list \<Rightarrow> string \<Rightarrow> error + real" where
  "values_accessor kv name =
     (case map_of kv name of None \<Rightarrow> Inl KeyError | Some v \<Rightarrow> Inr v)"



section \<open>Rounding and tensor arithmetic\<close>




lemma round_half_even_zero [simp]: "round_half_even 0 = 0"
  by (simp add: round_half_even_def)

lemma fmul_one_left [simp]: "fmul (Fin 1) x = x"
  by (cases x) (simp_all add: inf_of_sign_def)

lemmas adsr_eval = TorchADSR_forward_def note_on_duration'_def note_on_def note_off_def
  attack_def decay_def release_def TorchADSR_ramp_def seconds_to_samples_def torch_arange_def
  py_slice_to_def values_accessor_def TorchSynthModule_init_def round_half_even_def fsub_def
  inf_of_sign_def Let_def


section \<open>The parameter accessors of a module\<close>

text \<open>
  As written, \<open>p\<close> and \<open>set_parameter\<close> call \<open>from_0to1\<close> and \<open>to_0to1\<close> on the
  parameter object. \<open>TorchParameter\<close> declares \<open>get_in_range\<close> and \<open>set_with_range\<close>
  for these, so both calls raise, whatever the parameter.
\<close>

lemma p_raises: "p self parameter_id = Inl KeyError \<or> p self parameter_id = Inl AttributeError"
  by (simp add: p_def TorchParameter_getattr_def split: option.splits)


text \<open>
  C1. For a module whose registry holds the name, \<open>set_parameter(name, real_value)\<close> is
  claimed to store \<open>range.to_0to1(real_value)\<close>. On the default ADSR module,
  \<open>set_parameter("sustain", 0.25)\<close> raises \<open>AttributeError\<close> and the stored normalized
  value stays 0.5.
\<close>

theorem set_parameter_raises_AttributeError:
  "map_sum id (\<lambda>m. (set_parameter m ''sustain'' 0.25, get_parameter_0to1 m ''sustain''))
     (TorchADSR_init 0.25 0.25 0.5 0.5 3.0 44100 512)
   = Inr (Inl AttributeError, Inr (Fin 0.5))"
  by (simp add: TorchADSR_init_def make_parameter_def ParameterRange_init_def
      TorchParameter_new_def to_0to1_def fsub_def TorchSynthModule_init_def set_parameter_def
      TorchParameter_getattr_def get_parameter_0to1_def)


section \<open>seconds_to_samples\<close>





section \<open>The ADSR envelope\<close>






text \<open>
  C2. With \<open>note_on_duration = 0\<close> the envelope is claimed to be returned for every
  attack, decay, sustain, release and alpha in their ranges, with no sustain hold. With
  attack and decay both 0 the call raises \<open>IndexError\<close>. With attack and decay both
  0.04 s at 10 samples per second (release 0, sustain 0.5) each segment rounds to no
  sample while their sum rounds to one, and the envelope returned is one held sustain
  sample.
\<close>

theorem one_shot_fails_or_holds:
  "TorchADSR_forward
     (values_accessor [(''attack'', 0), (''decay'', 0), (''sustain'', 0.5),
                       (''release'', 0.5), (''alpha'', 3)])
     (TorchSynthModule_init 44100 512) 0 = Inl IndexError
   \<and> TorchADSR_forward
       (values_accessor [(''attack'', 0.04), (''decay'', 0.04), (''sustain'', 0.5),
                         (''release'', 0), (''alpha'', 3)])
       (TorchSynthModule_init 10 512) 0 = Inr [Fin 0.5]"
  by (simp add: adsr_eval)






section \<open>The amplifier\<close>

text \<open>
  C5. An audio signal with a sample outside [-1, 1] is claimed to be rescaled to peak 1
  before the multiplication. With the control signal [1] and the audio signal [2] the
  output is [2]: the rescaled signal that \<open>normalize\<close> returns is dropped.
\<close>

theorem vca_does_not_rescale:
  "TorchVCA_forward [Fin 1] [Fin 2] = Inr [Fin 2] \<and> normalize [Fin 2] = [Fin 1]"
  by (simp add: TorchVCA_forward_def fix_length_def normalize_def fmax_def)


section \<open>The oscillators\<close>

text \<open>
  C9. The result of \<open>_forward\<close> is the same whatever the stored phase of the object it
  is called on: it depends on the kind of oscillator, the parameter values read, the
  modulation signal and the phase argument only.
\<close>

theorem forward_ignores_stored_phase:
  "fst (TorchVCO_forward k P SAMPLE_RATE (self\<lparr>phase := x\<rparr>) mod_signal ph)
   = fst (TorchVCO_forward k P SAMPLE_RATE self mod_signal ph)"
  by (simp add: TorchVCO_forward_def Let_def split: sum.splits)


section \<open>The range of a parameter\<close>






section \<open>The partials constant of the square-saw oscillator\<close>








section \<open>The stored phase of an oscillator\<close>




lemma fadd_zero_left [simp]: "fadd (Fin 0) x = x"
  by (cases x) simp_all

lemma fadd_zero_right [simp]: "fadd x (Fin 0) = x"
  by (cases x) simp_all



lemma torch_cumsum_acc: "torch_cumsum xs = cumsum_acc (Fin 0) xs"
  by (cases xs) (simp_all add: torch_cumsum_def)

lemma cumsum_acc_Nil_iff [simp]: "cumsum_acc a xs = [] \<longleftrightarrow> xs = []"
  by (cases xs) simp_all



lemma make_argument_Nil_iff [simp]: "make_argument SR c = [] \<longleftrightarrow> c = []"
  by (simp add: make_argument_def torch_cumsum_acc)

lemma make_control_as_frequency_length:
  "make_control_as_frequency k P ms = Inr c \<Longrightarrow> length c = length ms"
  by (auto simp: make_control_as_frequency_def Let_def split: if_splits sum.splits)











end
